theory Spec2Isabelle
  imports Main "HOL-Library.Word"
begin

section \<open>Values shared by all packages\<close>

text \<open>
  Go's \<open>uuid.UUID\<close> and the result of \<open>md5.Sum\<close> are both \<open>[16]byte\<close>: here a
  128-bit word whose big-endian bytes are the array. \<open>time.Time\<close> and \<open>time.Duration\<close>
  are integers (nanoseconds). Go's \<open>int\<close> fields (\<open>Limit\<close>, \<open>Offset\<close>, \<open>Pages\<close>)
  are only compared and printed in the code below, never added, so they are \<open>int\<close>.
\<close>

type_synonym uuid = "128 word"
type_synonym digest = "128 word"

datatype 'a outcome = Returns 'a | Panics string

definition hexdigit :: "nat \<Rightarrow> char" where
  "hexdigit n = ''0123456789abcdef'' ! (n mod 16)"

definition hex_byte :: "nat \<Rightarrow> string" where
  "hex_byte b = [hexdigit (b div 16), hexdigit (b mod 16)]"

definition bytes16 :: "128 word \<Rightarrow> nat list" where
  "bytes16 w = map (\<lambda>i. (unat w div 256 ^ (15 - i)) mod 256) [0..<16]"

definition hex_bytes :: "nat list \<Rightarrow> string" where
  "hex_bytes bs = concat (map hex_byte bs)"

text \<open>\<open>fmt.Sprintf("%x", hash)\<close> on a \<open>[16]byte\<close>: two lower-case hex digits per byte.\<close>

definition Sprintf_x :: "digest \<Rightarrow> string" where
  "Sprintf_x h = hex_bytes (bytes16 h)"

text \<open>\<open>uuid.UUID.String\<close>: the 8-4-4-4-12 form.\<close>

definition uuid_String :: "uuid \<Rightarrow> string" where
  "uuid_String u =
     (let bs = bytes16 u in
      hex_bytes (take 4 bs) @ ''-'' @ hex_bytes (take 2 (drop 4 bs)) @ ''-'' @
      hex_bytes (take 2 (drop 6 bs)) @ ''-'' @ hex_bytes (take 2 (drop 8 bs)) @ ''-'' @
      hex_bytes (drop 10 bs))"

text \<open>\<open>%d\<close> of \<open>fmt.Sprintf\<close>: decimal digits, with a minus sign for a negative value.\<close>

function digits10 :: "nat \<Rightarrow> string" where
  "digits10 n =
     (if n < 10 then [''0123456789'' ! n]
      else digits10 (n div 10) @ [''0123456789'' ! (n mod 10)])"
  by pat_completeness auto
termination
  by (relation "measure id") auto

declare digits10.simps [simp del]

definition Sprintf_d :: "int \<Rightarrow> string" where
  "Sprintf_d i = (if i < 0 then CHR ''-'' # digits10 (nat (- i)) else digits10 (nat i))"

section \<open>Package models\<close>

record Book =
  ID :: uuid
  Title :: string
  Author :: string
  ISBN :: string
  Publisher :: string
  Genre :: string
  PublishedAt :: int
  Pages :: int
  Language :: string
  Available :: bool
  CreatedAt :: int
  UpdatedAt :: int

record CreateBookRequest =
  req_Title :: string
  req_Author :: string
  req_ISBN :: string
  req_Publisher :: string
  req_Genre :: string
  req_PublishedAt :: int
  req_Pages :: int
  req_Language :: string

record BookFilter =
  filter_Author :: string
  filter_Genre :: string
  filter_Language :: string
  filter_Available :: "bool option"
  filter_Limit :: int
  filter_Offset :: int

record BooksListResponse =
  Books :: "Book list"
  Total :: int
  resp_Limit :: int
  resp_Offset :: int

definition zeroBook :: Book where
  "zeroBook = \<lparr>ID = 0, Title = [], Author = [], ISBN = [], Publisher = [], Genre = [],
     PublishedAt = 0, Pages = 0, Language = [], Available = False, CreatedAt = 0, UpdatedAt = 0\<rparr>"

definition zeroResponse :: BooksListResponse where
  "zeroResponse = \<lparr>Books = [], Total = 0, resp_Limit = 0, resp_Offset = 0\<rparr>"

section \<open>Package cache: the external tier\<close>

text \<open>
  The Redis server behind \<open>RedisCache\<close>: a store from keys to a JSON document and an
  optional expiry. A document is kept as the value it encodes (\<open>json.Marshal\<close> followed by
  \<open>json.Unmarshal\<close> gives the value back); decoding the JSON of one struct into the
  other succeeds with the zero value, because the two structs share no field name; any
  other string fails to decode. Each call takes \<open>up\<close>: whether the server answers this call.
\<close>

datatype payload = BookData Book | ListData BooksListResponse | OtherData

datatype cache_error = RedisNil | RedisDown | ClientClosed | JSONError

record RedisCache =
  store :: "string \<rightharpoonup> (payload \<times> int option)"
  clientClosed :: bool

definition redis_live :: "int \<Rightarrow> (payload \<times> int option) \<Rightarrow> bool" where
  "redis_live now e = (case snd e of None \<Rightarrow> True | Some t \<Rightarrow> now < t)"

definition redis_Get :: "bool \<Rightarrow> int \<Rightarrow> RedisCache \<Rightarrow> string \<Rightarrow> cache_error + payload" where
  "redis_Get up now r key =
     (if clientClosed r then Inl ClientClosed
      else if \<not> up then Inl RedisDown
      else case store r key of
             None \<Rightarrow> Inl RedisNil
           | Some e \<Rightarrow> if redis_live now e then Inr (fst e) else Inl RedisNil)"

text \<open>
  \<open>client.Set(ctx, key, data, ttl)\<close>: a positive \<open>ttl\<close> sets the expiry, \<open>-1\<close> is
  go-redis's \<open>KeepTTL\<close>, any other value stores the key without expiry.
\<close>

definition redis_Set ::
  "bool \<Rightarrow> int \<Rightarrow> RedisCache \<Rightarrow> string \<Rightarrow> payload \<Rightarrow> int \<Rightarrow> cache_error option \<times> RedisCache" where
  "redis_Set up now r key v ttl =
     (if clientClosed r then (Some ClientClosed, r)
      else if \<not> up then (Some RedisDown, r)
      else
        let old = (case store r key of
                     None \<Rightarrow> None
                   | Some e \<Rightarrow> if redis_live now e then snd e else None);
            ex = (if 0 < ttl then Some (now + ttl) else if ttl = - 1 then old else None)
        in (None, r\<lparr>store := (store r)(key \<mapsto> (v, ex))\<rparr>))"

definition redis_Del :: "bool \<Rightarrow> RedisCache \<Rightarrow> string \<Rightarrow> cache_error option \<times> RedisCache" where
  "redis_Del up r key =
     (if clientClosed r then (Some ClientClosed, r)
      else if \<not> up then (Some RedisDown, r)
      else (None, r\<lparr>store := (store r)(key := None)\<rparr>))"

text \<open>The glob patterns of \<open>SCAN ... MATCH\<close>, for literal characters and \<open>*\<close>.\<close>

fun glob_match :: "string \<Rightarrow> string \<Rightarrow> bool" where
  "glob_match [] s = (s = [])"
| "glob_match (p # ps) [] = (p = CHR ''*'' \<and> glob_match ps [])"
| "glob_match (p # ps) (c # cs) =
     (if p = CHR ''*'' then glob_match ps (c # cs) \<or> glob_match (p # ps) cs
      else p = c \<and> glob_match ps cs)"

definition RedisCache_GetBook :: "bool \<Rightarrow> int \<Rightarrow> RedisCache \<Rightarrow> string \<Rightarrow> cache_error + Book" where
  "RedisCache_GetBook up now r bid =
     (let key = ''book:'' @ bid in
      case redis_Get up now r key of
        Inl e \<Rightarrow> Inl e
      | Inr (BookData b) \<Rightarrow> Inr b
      | Inr (ListData l) \<Rightarrow> Inr zeroBook
      | Inr OtherData \<Rightarrow> Inl JSONError)"

definition RedisCache_SetBook ::
  "bool \<Rightarrow> int \<Rightarrow> RedisCache \<Rightarrow> Book \<Rightarrow> int \<Rightarrow> cache_error option \<times> RedisCache" where
  "RedisCache_SetBook up now r book ttl =
     (let key = ''book:'' @ uuid_String (ID book) in
      redis_Set up now r key (BookData book) ttl)"

definition RedisCache_DeleteBook :: "bool \<Rightarrow> RedisCache \<Rightarrow> string \<Rightarrow> cache_error option \<times> RedisCache" where
  "RedisCache_DeleteBook up r bid = (let key = ''book:'' @ bid in redis_Del up r key)"

definition RedisCache_GetBookList ::
  "bool \<Rightarrow> int \<Rightarrow> RedisCache \<Rightarrow> string \<Rightarrow> cache_error + BooksListResponse" where
  "RedisCache_GetBookList up now r key =
     (case redis_Get up now r key of
        Inl e \<Rightarrow> Inl e
      | Inr (ListData l) \<Rightarrow> Inr l
      | Inr (BookData b) \<Rightarrow> Inr zeroResponse
      | Inr OtherData \<Rightarrow> Inl JSONError)"

definition RedisCache_SetBookList ::
  "bool \<Rightarrow> int \<Rightarrow> RedisCache \<Rightarrow> string \<Rightarrow> BooksListResponse \<Rightarrow> int \<Rightarrow> cache_error option \<times> RedisCache" where
  "RedisCache_SetBookList up now r key response ttl = redis_Set up now r key (ListData response) ttl"

text \<open>The scan returns the live keys that match; they are deleted in one \<open>DEL\<close>.\<close>

definition RedisCache_DeleteBookListCache ::
  "bool \<Rightarrow> int \<Rightarrow> RedisCache \<Rightarrow> string \<Rightarrow> cache_error option \<times> RedisCache" where
  "RedisCache_DeleteBookListCache up now r pattern =
     (if clientClosed r then (Some ClientClosed, r)
      else if \<not> up then (Some RedisDown, r)
      else (None, r\<lparr>store := (\<lambda>k. if glob_match pattern k then None else store r k)\<rparr>))"

definition RedisCache_Ping :: "bool \<Rightarrow> RedisCache \<Rightarrow> cache_error option" where
  "RedisCache_Ping up r = (if clientClosed r then Some ClientClosed else if \<not> up then Some RedisDown else None)"

definition RedisCache_Close :: "RedisCache \<Rightarrow> RedisCache" where
  "RedisCache_Close r = r\<lparr>clientClosed := True\<rparr>"

section \<open>Package cache: the hybrid cache\<close>

record CacheEntry =
  Data :: payload
  ExpiresAt :: int

record CacheStats =
  Hits :: int
  Misses :: int
  Evictions :: int
  RedisHits :: int
  MemoryHits :: int

text \<open>
  \<open>BookCache\<close>. The \<open>redis\<close> field is the \<open>Cache\<close> interface value, \<open>None\<close> for
  \<open>nil\<close>; \<open>NewBookCache\<close> sets \<open>useRedis\<close> only for a non-nil value, and the
  operations below treat the two together. \<open>cleanupClosed\<close> and \<open>ctxDone\<close> are the states
  of the \<open>cleanup\<close> channel and of the context. A goroutine started by an operation has
  not run when the operation returns: \<open>pendingDeletes\<close> holds the keys of the deletions
  started by reads of expired entries, \<open>pendingFlushes\<close> counts the flushes started by
  \<open>Clear\<close>; \<open>asyncDelete\<close> and \<open>asyncFlush\<close> run one of them.
\<close>

record BookCache =
  redis :: "RedisCache option"
  inMemory :: "string \<rightharpoonup> CacheEntry"
  ttl :: int
  cleanupClosed :: bool
  ctxDone :: bool
  stats :: CacheStats
  useRedis :: bool
  sweeper :: bool
  pendingDeletes :: "string list"
  pendingFlushes :: nat

definition zeroStats :: CacheStats where
  "zeroStats = \<lparr>Hits = 0, Misses = 0, Evictions = 0, RedisHits = 0, MemoryHits = 0\<rparr>"

definition NewBookCache :: "bool \<Rightarrow> int \<Rightarrow> RedisCache option \<Rightarrow> BookCache" where
  "NewBookCache up ttl0 redisCache =
     (let use = (case redisCache of None \<Rightarrow> False | Some r \<Rightarrow> RedisCache_Ping up r = None) in
      \<lparr>redis = redisCache, inMemory = Map.empty, ttl = ttl0, cleanupClosed = False,
       ctxDone = False, stats = zeroStats, useRedis = use, sweeper = \<not> use,
       pendingDeletes = [], pendingFlushes = 0\<rparr>)"

definition external :: "BookCache \<Rightarrow> RedisCache option" where
  "external c = (if useRedis c then redis c else None)"

definition hitRedis :: "BookCache \<Rightarrow> BookCache" where
  "hitRedis c = c\<lparr>stats := (stats c)\<lparr>Hits := Hits (stats c) + 1, RedisHits := RedisHits (stats c) + 1\<rparr>\<rparr>"

definition hitMemory :: "BookCache \<Rightarrow> BookCache" where
  "hitMemory c = c\<lparr>stats := (stats c)\<lparr>Hits := Hits (stats c) + 1, MemoryHits := MemoryHits (stats c) + 1\<rparr>\<rparr>"

definition miss :: "BookCache \<Rightarrow> BookCache" where
  "miss c = c\<lparr>stats := (stats c)\<lparr>Misses := Misses (stats c) + 1\<rparr>\<rparr>"

text \<open>The part of \<open>GetBook\<close>, \<open>GetBookList\<close> and \<open>Get\<close> that reads the in-memory map.\<close>

definition getLocal :: "int \<Rightarrow> BookCache \<Rightarrow> string \<Rightarrow> payload option \<times> BookCache" where
  "getLocal now c key =
     (case inMemory c key of
        None \<Rightarrow> (None, miss c)
      | Some entry \<Rightarrow>
          if ExpiresAt entry < now
          then (None, miss (c\<lparr>pendingDeletes := pendingDeletes c @ [key]\<rparr>))
          else (Some (Data entry), hitMemory c))"

definition BookCache_GetBook :: "bool \<Rightarrow> int \<Rightarrow> BookCache \<Rightarrow> uuid \<Rightarrow> Book option \<times> BookCache" where
  "BookCache_GetBook up now c bid =
     (let key = uuid_String bid;
          fromRedis = (case external c of
                         None \<Rightarrow> None
                       | Some r \<Rightarrow> (case RedisCache_GetBook up now r key of
                                     Inr book \<Rightarrow> Some book | Inl e \<Rightarrow> None))
      in case fromRedis of
           Some book \<Rightarrow> (Some book, hitRedis c)
         | None \<Rightarrow>
             (case getLocal now c key of
                (Some (BookData book), c') \<Rightarrow> (Some book, c')
              | (_, c') \<Rightarrow> (None, c')))"

definition setLocal :: "int \<Rightarrow> BookCache \<Rightarrow> string \<Rightarrow> payload \<Rightarrow> BookCache" where
  "setLocal now c key v =
     c\<lparr>inMemory := (inMemory c)(key \<mapsto> \<lparr>Data = v, ExpiresAt = now + ttl c\<rparr>)\<rparr>"

definition BookCache_SetBook :: "bool \<Rightarrow> int \<Rightarrow> BookCache \<Rightarrow> Book \<Rightarrow> BookCache" where
  "BookCache_SetBook up now c book =
     (let key = uuid_String (ID book);
          c1 = (case external c of
                  None \<Rightarrow> c
                | Some r \<Rightarrow> c\<lparr>redis := Some (snd (RedisCache_SetBook up now r book (ttl c)))\<rparr>)
      in setLocal now c1 key (BookData book))"

text \<open>
  \<open>GenerateBookListKey\<close>. \<open>md5.Sum\<close> belongs to Go's standard library; it is the
  parameter \<open>md5\<close> here.
\<close>

definition filterStr :: "BookFilter \<Rightarrow> string" where
  "filterStr f =
     (let availableStr = (case filter_Available f of
                            None \<Rightarrow> []
                          | Some b \<Rightarrow> if b then ''true'' else ''false'')
      in ''author:'' @ filter_Author f @ ''|genre:'' @ filter_Genre f @
         ''|language:'' @ filter_Language f @ ''|available:'' @ availableStr @
         ''|limit:'' @ Sprintf_d (filter_Limit f) @ ''|offset:'' @ Sprintf_d (filter_Offset f))"

definition GenerateBookListKey :: "(string \<Rightarrow> digest) \<Rightarrow> BookFilter \<Rightarrow> string" where
  "GenerateBookListKey md5 f = (let hash = md5 (filterStr f) in ''books:'' @ Sprintf_x hash)"

definition BookListPattern :: string where
  "BookListPattern = ''books:*''"

definition BookCache_GetBookList ::
  "(string \<Rightarrow> digest) \<Rightarrow> bool \<Rightarrow> int \<Rightarrow> BookCache \<Rightarrow> BookFilter \<Rightarrow> BooksListResponse option \<times> BookCache" where
  "BookCache_GetBookList md5 up now c f =
     (let key = GenerateBookListKey md5 f;
          fromRedis = (case external c of
                         None \<Rightarrow> None
                       | Some r \<Rightarrow> (case RedisCache_GetBookList up now r key of
                                     Inr response \<Rightarrow> Some response | Inl e \<Rightarrow> None))
      in case fromRedis of
           Some response \<Rightarrow> (Some response, hitRedis c)
         | None \<Rightarrow>
             (case getLocal now c key of
                (Some (ListData response), c') \<Rightarrow> (Some response, c')
              | (_, c') \<Rightarrow> (None, c')))"

definition BookCache_SetBookList ::
  "(string \<Rightarrow> digest) \<Rightarrow> bool \<Rightarrow> int \<Rightarrow> BookCache \<Rightarrow> BookFilter \<Rightarrow> BooksListResponse \<Rightarrow> BookCache" where
  "BookCache_SetBookList md5 up now c f response =
     (let key = GenerateBookListKey md5 f;
          c1 = (case external c of
                  None \<Rightarrow> c
                | Some r \<Rightarrow>
                    c\<lparr>redis := Some (snd (RedisCache_SetBookList up now r key response (ttl c)))\<rparr>)
      in setLocal now c1 key (ListData response))"

text \<open>
  \<open>InvalidateBook\<close>: the two calls to the external tier (\<open>up1\<close>, \<open>up2\<close>: whether each
  is answered), then the in-memory map: the key itself, and every other key of 32 characters.
\<close>

definition BookCache_InvalidateBook :: "bool \<Rightarrow> bool \<Rightarrow> int \<Rightarrow> BookCache \<Rightarrow> uuid \<Rightarrow> BookCache" where
  "BookCache_InvalidateBook up1 up2 now c bid =
     (let key = uuid_String bid;
          c1 = (case external c of
                  None \<Rightarrow> c
                | Some r \<Rightarrow>
                    let r1 = snd (RedisCache_DeleteBook up1 r key);
                        r2 = snd (RedisCache_DeleteBookListCache up2 now r1 BookListPattern)
                    in c\<lparr>redis := Some r2\<rparr>);
          m1 = (inMemory c1)(key := None)
      in c1\<lparr>inMemory := (\<lambda>k. if length k = 32 \<and> k \<noteq> key then None else m1 k)\<rparr>)"

definition BookCache_Clear :: "BookCache \<Rightarrow> BookCache" where
  "BookCache_Clear c =
     (let c1 = (if useRedis c then c\<lparr>pendingFlushes := Suc (pendingFlushes c)\<rparr> else c)
      in c1\<lparr>inMemory := Map.empty\<rparr>)"

text \<open>One goroutine started by \<open>Clear\<close> runs: it deletes both key spaces of the external tier.\<close>

definition asyncFlush :: "bool \<Rightarrow> bool \<Rightarrow> int \<Rightarrow> BookCache \<Rightarrow> BookCache" where
  "asyncFlush up1 up2 now c =
     (case (pendingFlushes c, redis c) of
        (Suc n, Some r) \<Rightarrow>
          let r1 = snd (RedisCache_DeleteBookListCache up1 now r ''book:*'');
              r2 = snd (RedisCache_DeleteBookListCache up2 now r1 ''books:*'')
          in c\<lparr>redis := Some r2, pendingFlushes := n\<rparr>
      | _ \<Rightarrow> c)"

text \<open>One goroutine started by a read of an expired entry runs: it deletes the key.\<close>

definition asyncDelete :: "string \<Rightarrow> BookCache \<Rightarrow> BookCache" where
  "asyncDelete key c =
     (if key \<in> set (pendingDeletes c)
      then c\<lparr>inMemory := (inMemory c)(key := None), pendingDeletes := remove1 key (pendingDeletes c)\<rparr>
      else c)"

text \<open>
  \<open>Shutdown\<close>: \<open>cancel\<close> may be called any number of times; closing the closed
  \<open>cleanup\<close> channel panics.
\<close>

definition BookCache_Shutdown :: "BookCache \<Rightarrow> BookCache outcome" where
  "BookCache_Shutdown c =
     (let c1 = c\<lparr>ctxDone := True, sweeper := False\<rparr> in
      if cleanupClosed c1 then Panics ''close of closed channel''
      else
        let c2 = c1\<lparr>cleanupClosed := True\<rparr> in
        Returns (case external c2 of
                   None \<Rightarrow> c2
                 | Some r \<Rightarrow> c2\<lparr>redis := Some (RedisCache_Close r)\<rparr>))"

section \<open>Errors\<close>

text \<open>
  A Go \<open>error\<close>: \<open>Err m\<close> is \<open>fmt.Errorf(m)\<close>, \<open>Wrap m e\<close> is
  \<open>fmt.Errorf(m + ": %w", e)\<close>, \<open>DriverErr\<close> is an error of the database driver.
\<close>

datatype db_error = DBDown | UniqueViolation

datatype error = Err string | Wrap string error | DriverErr db_error

section \<open>Package workers\<close>

text \<open>
  \<open>JobType\<close> is a Go \<open>int\<close>. The \<open>UpdateData\<close> and \<open>Callback\<close> fields of a job are
  never read by the package and are left out.
\<close>

definition JobTypeValidate :: int where "JobTypeValidate = 0"
definition JobTypeProcess :: int where "JobTypeProcess = 1"
definition JobTypeNotify :: int where "JobTypeNotify = 2"

record BookJob =
  job_ID :: string
  job_Type :: int
  job_BookData :: "CreateBookRequest option"

record BookResult =
  JobID :: string
  Success :: bool
  Error :: "error option"
  res_Book :: "Book option"
  Message :: string

definition processJob :: "BookJob \<Rightarrow> BookResult" where
  "processJob job =
     (let result = \<lparr>JobID = job_ID job, Success = True, Error = None, res_Book = None, Message = []\<rparr>
      in if job_Type job = JobTypeValidate then
           (let result = result\<lparr>Message := ''Book validation completed''\<rparr> in
            case job_BookData job of
              None \<Rightarrow> result
            | Some d \<Rightarrow> if req_Title d = []
                        then result\<lparr>Success := False, Error := Some (Err ''title is required'')\<rparr>
                        else result)
         else if job_Type job = JobTypeProcess then
           (let result = result\<lparr>Message := ''Book processing completed''\<rparr> in
            case job_BookData job of
              None \<Rightarrow> result
            | Some d \<Rightarrow> result\<lparr>res_Book := Some (zeroBook\<lparr>Title := req_Title d,
                                       Author := req_Author d, ISBN := req_ISBN d\<rparr>)\<rparr>)
         else if job_Type job = JobTypeNotify then result\<lparr>Message := ''Notification sent''\<rparr>
         else result\<lparr>Success := False,
                     Error := Some (Err (''unknown job type: '' @ Sprintf_d (job_Type job)))\<rparr>)"

text \<open>
  The pool and its goroutines. A channel is its buffer, its capacity and whether it is
  closed; a send is ready when the buffer has room (\<open>main\<close> builds the pool with buffers
  of 100). Each worker goroutine is at the outer \<open>select\<close> (\<open>Idle\<close>), inside
  \<open>processJob\<close> (\<open>Processing\<close>), at the inner \<open>select\<close> with a result to send
  (\<open>Sending\<close>), or has returned (\<open>Exited\<close>). \<open>collectorRunning\<close> is the goroutine of
  \<open>resultProcessor\<close>. \<open>stopPC\<close> counts the statements of \<open>Stop\<close> its caller has
  executed: \<open>cancel\<close>, \<open>close(jobQueue)\<close>, \<open>wg.Wait\<close>, \<open>close(resultChan)\<close>.
  \<open>started\<close> lists the jobs of the log line "Worker processing job", in order, and
  \<open>panicked\<close> holds the message of a panic, after which nothing runs.
\<close>

datatype wstate = Idle | Processing BookJob | Sending BookResult | Exited

record BookProcessor =
  workers :: nat
  jobQueue :: "BookJob list"
  queueCap :: nat
  queueClosed :: bool
  resultChan :: "BookResult list"
  resultCap :: nat
  resultClosed :: bool
  poolCtxDone :: bool
  wstates :: "wstate list"
  collectorRunning :: bool
  stopPC :: nat
  started :: "BookJob list"
  panicked :: "string option"

definition NewBookProcessor :: "nat \<Rightarrow> nat \<Rightarrow> BookProcessor" where
  "NewBookProcessor n bufferSize =
     \<lparr>workers = n, jobQueue = [], queueCap = bufferSize, queueClosed = False,
      resultChan = [], resultCap = bufferSize, resultClosed = False, poolCtxDone = False,
      wstates = [], collectorRunning = False, stopPC = 0, started = [], panicked = None\<rparr>"

definition Start :: "BookProcessor \<Rightarrow> BookProcessor" where
  "Start bp = bp\<lparr>wstates := wstates bp @ replicate (workers bp) Idle, collectorRunning := True\<rparr>"

text \<open>
  \<open>SubmitJob\<close>: the cases of its \<open>select\<close> that can proceed, in the order of the
  source, each with what it does. A send on a closed channel can proceed, and panics.
  The \<open>default\<close> case runs only when no other can. \<open>select\<close> takes any one of the cases
  that can proceed: \<open>SubmitJob\<close> takes the one numbered \<open>pick\<close>.
\<close>

definition SubmitJob_cases :: "BookProcessor \<Rightarrow> BookJob \<Rightarrow> (error option \<times> BookProcessor) outcome list" where
  "SubmitJob_cases bp job =
     (let send = (if queueClosed bp then [Panics ''send on closed channel'']
                  else if length (jobQueue bp) < queueCap bp
                  then [Returns (None, bp\<lparr>jobQueue := jobQueue bp @ [job]\<rparr>)]
                  else []);
          done = (if poolCtxDone bp
                  then [Returns (Some (Err ''processor is shutting down''), bp)]
                  else [])
      in if send @ done = [] then [Returns (Some (Err ''job queue is full''), bp)]
         else send @ done)"

definition SubmitJob :: "nat \<Rightarrow> BookProcessor \<Rightarrow> BookJob \<Rightarrow> (error option \<times> BookProcessor) outcome" where
  "SubmitJob pick bp job =
     (let cs = SubmitJob_cases bp job in cs ! (pick mod length cs))"

text \<open>
  One step of one goroutine of the pool; \<open>None\<close> when the goroutine cannot take that
  step in this state (it is blocked, or is not at that statement).
\<close>

datatype event =
    WorkerRecv nat
  | WorkerFinish nat
  | WorkerSend nat
  | WorkerDone nat
  | CollectorRecv
  | CollectorDone
  | StopStep
  | ShutdownCancel

definition wstate_at :: "BookProcessor \<Rightarrow> nat \<Rightarrow> wstate option" where
  "wstate_at bp i = (if i < length (wstates bp) then Some (wstates bp ! i) else None)"

definition set_wstate :: "BookProcessor \<Rightarrow> nat \<Rightarrow> wstate \<Rightarrow> BookProcessor" where
  "set_wstate bp i w = bp\<lparr>wstates := (wstates bp)[i := w]\<rparr>"

definition all_exited :: "BookProcessor \<Rightarrow> bool" where
  "all_exited bp = (list_all (\<lambda>w. w = Exited) (wstates bp) \<and> \<not> collectorRunning bp)"

fun step :: "event \<Rightarrow> BookProcessor \<Rightarrow> BookProcessor option" where
  "step (WorkerRecv i) bp =
     (case wstate_at bp i of
        Some Idle \<Rightarrow>
          (case jobQueue bp of
             job # rest \<Rightarrow>
               Some (set_wstate (bp\<lparr>jobQueue := rest, started := started bp @ [job]\<rparr>) i (Processing job))
           | [] \<Rightarrow> if queueClosed bp then Some (set_wstate bp i Exited) else None)
      | _ \<Rightarrow> None)"
| "step (WorkerFinish i) bp =
     (case wstate_at bp i of
        Some (Processing job) \<Rightarrow> Some (set_wstate bp i (Sending (processJob job)))
      | _ \<Rightarrow> None)"
| "step (WorkerSend i) bp =
     (case wstate_at bp i of
        Some (Sending result) \<Rightarrow>
          if resultClosed bp then Some (bp\<lparr>panicked := Some ''send on closed channel''\<rparr>)
          else if length (resultChan bp) < resultCap bp
          then Some (set_wstate (bp\<lparr>resultChan := resultChan bp @ [result]\<rparr>) i Idle)
          else None
      | _ \<Rightarrow> None)"
| "step (WorkerDone i) bp =
     (case wstate_at bp i of
        Some Idle \<Rightarrow> if poolCtxDone bp then Some (set_wstate bp i Exited) else None
      | Some (Sending result) \<Rightarrow> if poolCtxDone bp then Some (set_wstate bp i Exited) else None
      | _ \<Rightarrow> None)"
| "step CollectorRecv bp =
     (if collectorRunning bp then
        (case resultChan bp of
           result # rest \<Rightarrow> Some (bp\<lparr>resultChan := rest\<rparr>)
         | [] \<Rightarrow> if resultClosed bp then Some (bp\<lparr>collectorRunning := False\<rparr>) else None)
      else None)"
| "step CollectorDone bp =
     (if collectorRunning bp \<and> poolCtxDone bp then Some (bp\<lparr>collectorRunning := False\<rparr>) else None)"
| "step StopStep bp =
     (if stopPC bp = 0 then Some (bp\<lparr>poolCtxDone := True, stopPC := 1\<rparr>)
      else if stopPC bp = 1 then
        (if queueClosed bp then Some (bp\<lparr>panicked := Some ''close of closed channel''\<rparr>)
         else Some (bp\<lparr>queueClosed := True, stopPC := 2\<rparr>))
      else if stopPC bp = 2 then
        (if all_exited bp then Some (bp\<lparr>stopPC := 3\<rparr>) else None)
      else if stopPC bp = 3 then
        (if resultClosed bp then Some (bp\<lparr>panicked := Some ''close of closed channel''\<rparr>)
         else Some (bp\<lparr>resultClosed := True, stopPC := 4\<rparr>))
      else None)"
| "step ShutdownCancel bp = Some (bp\<lparr>poolCtxDone := True\<rparr>)"

text \<open>A schedule is the list of the steps taken, in order; after a panic nothing runs.\<close>

fun run :: "event list \<Rightarrow> BookProcessor \<Rightarrow> BookProcessor option" where
  "run [] bp = Some bp"
| "run (e # es) bp =
     (if panicked bp = None
      then (case step e bp of None \<Rightarrow> None | Some bp' \<Rightarrow> run es bp')
      else None)"

section \<open>Package repository\<close>

text \<open>
  The table \<open>books\<close> is the list of its rows. Its column \<open>isbn\<close> is \<open>UNIQUE\<close> and
  \<open>id\<close> is the primary key (\<open>Migrate\<close>), so an \<open>INSERT\<close> that repeats either fails.
  \<open>up\<close> says whether the server executes the statement at all.
\<close>

definition ExistsByISBN :: "bool \<Rightarrow> Book list \<Rightarrow> string \<Rightarrow> uuid option \<Rightarrow> error + bool" where
  "ExistsByISBN up db isbn excludeID =
     (if up then
        (let count = length (filter (\<lambda>b. ISBN b = isbn \<and>
                               (case excludeID of None \<Rightarrow> True | Some x \<Rightarrow> ID b \<noteq> x)) db)
         in Inr (0 < count))
      else Inl (Wrap ''failed to check ISBN existence'' (DriverErr DBDown)))"

definition repo_Create ::
  "bool \<Rightarrow> uuid \<Rightarrow> int \<Rightarrow> Book list \<Rightarrow> CreateBookRequest \<Rightarrow> error + (Book \<times> Book list)" where
  "repo_Create up newID now db req =
     (let book = \<lparr>ID = newID, Title = req_Title req, Author = req_Author req, ISBN = req_ISBN req,
                  Publisher = req_Publisher req, Genre = req_Genre req,
                  PublishedAt = req_PublishedAt req, Pages = req_Pages req,
                  Language = req_Language req, Available = True, CreatedAt = now, UpdatedAt = now\<rparr>;
          book = (if Language book = [] then book\<lparr>Language := ''English''\<rparr> else book)
      in if up then
           (if list_ex (\<lambda>b. ISBN b = ISBN book) db \<or> list_ex (\<lambda>b. ID b = ID book) db
            then Inl (Wrap ''failed to create book'' (DriverErr UniqueViolation))
            else Inr (book, book # db))
         else Inl (Wrap ''failed to create book'' (DriverErr DBDown)))"

text \<open>
  \<open>GetAll\<close>: the part written in Go makes the pagination effective; \<open>sql\<close> is the answer
  of the database to the count and page queries built from the filter.
\<close>

definition repo_GetAll ::
  "(BookFilter \<Rightarrow> error + (Book list \<times> int)) \<Rightarrow> BookFilter \<Rightarrow> error + (Book list \<times> int)" where
  "repo_GetAll sql f =
     (let f1 = (if filter_Limit f \<le> 0 then f\<lparr>filter_Limit := 50\<rparr> else f);
          f2 = (if filter_Offset f1 < 0 then f1\<lparr>filter_Offset := 0\<rparr> else f1)
      in sql f2)"

section \<open>Package service\<close>

text \<open>The metrics counters of the service are not part of the state modelled here.\<close>

record bookService =
  bookRepo :: "Book list"
  cache :: "BookCache option"
  processor :: "BookProcessor option"

definition isSpace :: "char \<Rightarrow> bool" where
  "isSpace c = (c = CHR '' '' \<or> c = CHR 0x09 \<or> c = CHR 0x0A \<or> c = CHR 0x0B \<or>
                c = CHR 0x0C \<or> c = CHR 0x0D)"

text \<open>\<open>strings.TrimSpace\<close>, for the white space of ASCII.\<close>

definition TrimSpace :: "string \<Rightarrow> string" where
  "TrimSpace s = rev (dropWhile isSpace (rev (dropWhile isSpace s)))"

definition normalizeISBN :: "string \<Rightarrow> string" where
  "normalizeISBN isbn = filter (\<lambda>c. c \<noteq> CHR '' '') (filter (\<lambda>c. c \<noteq> CHR ''-'') isbn)"

definition isValidISBN :: "string \<Rightarrow> bool" where
  "isValidISBN isbn =
     (let normalized = normalizeISBN isbn
      in length normalized = 10 \<or> length normalized = 13)"

definition validateTitle :: "string \<Rightarrow> error option" where
  "validateTitle title = (if TrimSpace title = [] then Some (Err ''title is required'') else None)"

definition validateAuthor :: "string \<Rightarrow> error option" where
  "validateAuthor author = (if TrimSpace author = [] then Some (Err ''author is required'') else None)"

definition validateISBN :: "string \<Rightarrow> error option" where
  "validateISBN isbn =
     (if TrimSpace isbn = [] then Some (Err ''ISBN is required'')
      else let normalized = normalizeISBN isbn
           in if isValidISBN normalized then None else Some (Err ''invalid ISBN format''))"

definition normalizeBookData :: "CreateBookRequest \<Rightarrow> CreateBookRequest" where
  "normalizeBookData req =
     req\<lparr>req_Title := TrimSpace (req_Title req),
         req_Author := TrimSpace (req_Author req),
         req_ISBN := normalizeISBN (req_ISBN req),
         req_Publisher := TrimSpace (req_Publisher req),
         req_Genre := TrimSpace (req_Genre req),
         req_Language := TrimSpace (req_Language req)\<rparr>"

text \<open>
  What one call of \<open>CreateBook\<close> takes from outside: \<open>arrival\<close>, the order in which the
  three validation goroutines deliver (a goroutine the list does not name delivers after
  those it names, in the order of launch); whether the database answers the uniqueness
  check and the insert; whether the 5 second timer fires before the check answers; the
  identifier and the clock readings; whether the external cache tier answers; the
  identifier of the job and the case its \<open>select\<close> takes.
\<close>

datatype validator = VTitle | VAuthor | VISBN

record CreateEnv =
  arrival :: "validator list"
  checkUp :: bool
  checkTimeout :: bool
  createUp :: bool
  newID :: uuid
  dbNow :: int
  redisUp :: bool
  cacheNow :: int
  jobID :: string
  pick :: nat

definition runValidator :: "CreateBookRequest \<Rightarrow> validator \<Rightarrow> error option" where
  "runValidator req v =
     (case v of
        VTitle \<Rightarrow> validateTitle (req_Title req)
      | VAuthor \<Rightarrow> validateAuthor (req_Author req)
      | VISBN \<Rightarrow> validateISBN (req_ISBN req))"

definition deliveries :: "validator list \<Rightarrow> validator list" where
  "deliveries order = rev (remdups (rev (order @ [VTitle, VAuthor, VISBN])))"

fun firstError :: "error option list \<Rightarrow> error option" where
  "firstError [] = None"
| "firstError (None # es) = firstError es"
| "firstError (Some e # es) = Some e"

definition CreateBook ::
  "CreateEnv \<Rightarrow> bookService \<Rightarrow> CreateBookRequest \<Rightarrow> ((error + Book) \<times> bookService) outcome" where
  "CreateBook env s req =
     (case firstError (map (runValidator req) (deliveries (arrival env))) of
        Some err \<Rightarrow> Returns (Inl err, s)
      | None \<Rightarrow>
          if checkTimeout env then Returns (Inl (Err ''validation timeout''), s)
          else
            (case ExistsByISBN (checkUp env) (bookRepo s) (req_ISBN req) None of
               Inl err \<Rightarrow> Returns (Inl (Wrap ''failed to check ISBN uniqueness'' err), s)
             | Inr True \<Rightarrow>
                 Returns (Inl (Err (''book with ISBN '' @ req_ISBN req @ '' already exists'')), s)
             | Inr False \<Rightarrow>
                 (let req1 = normalizeBookData req in
                  case repo_Create (createUp env) (newID env) (dbNow env) (bookRepo s) req1 of
                    Inl err \<Rightarrow> Returns (Inl (Wrap ''failed to create book'' err), s)
                  | Inr (book, db) \<Rightarrow>
                      (let s1 = s\<lparr>bookRepo := db\<rparr>;
                           s2 = (case cache s1 of
                                   None \<Rightarrow> s1
                                 | Some c \<Rightarrow>
                                     s1\<lparr>cache := Some (BookCache_Clear
                                            (BookCache_SetBook (redisUp env) (cacheNow env) c book))\<rparr>)
                       in case processor s2 of
                            None \<Rightarrow> Returns (Inr book, s2)
                          | Some bp \<Rightarrow>
                              (let job = \<lparr>job_ID = jobID env, job_Type = JobTypeNotify,
                                          job_BookData = Some req1\<rparr>
                               in case SubmitJob (pick env) bp job of
                                    Panics m \<Rightarrow> Panics m
                                  | Returns (e, bp1) \<Rightarrow>
                                      Returns (Inr book, s2\<lparr>processor := Some bp1\<rparr>))))))"

text \<open>
  \<open>GetAllBooks\<close>. \<open>up\<close> and \<open>now\<close> are for the calls to the cache, \<open>sql\<close> for the
  repository.
\<close>

definition GetAllBooks ::
  "(string \<Rightarrow> digest) \<Rightarrow> bool \<Rightarrow> int \<Rightarrow> (BookFilter \<Rightarrow> error + (Book list \<times> int)) \<Rightarrow>
   bookService \<Rightarrow> BookFilter \<Rightarrow> (error + BooksListResponse) \<times> bookService" where
  "GetAllBooks md5 up now sql s f =
     (let looked = (case cache s of
                      None \<Rightarrow> (None, s)
                    | Some c \<Rightarrow> (case BookCache_GetBookList md5 up now c f of
                                  (found, c1) \<Rightarrow> (found, s\<lparr>cache := Some c1\<rparr>)))
      in case looked of
           (Some response, s1) \<Rightarrow> (Inr response, s1)
         | (None, s1) \<Rightarrow>
             (let f1 = (if filter_Limit f \<le> 0 \<or> 100 < filter_Limit f
                        then f\<lparr>filter_Limit := 50\<rparr> else f);
                  f2 = (if filter_Offset f1 < 0 then f1\<lparr>filter_Offset := 0\<rparr> else f1)
              in case repo_GetAll sql f2 of
                   Inl err \<Rightarrow> (Inl (Wrap ''failed to get books'' err), s1)
                 | Inr (books, totalCount) \<Rightarrow>
                     (let response = \<lparr>Books = books, Total = totalCount,
                                       resp_Limit = filter_Limit f2, resp_Offset = filter_Offset f2\<rparr>
                      in (Inr response,
                          case cache s1 of
                            None \<Rightarrow> s1
                          | Some c \<Rightarrow>
                              s1\<lparr>cache := Some (BookCache_SetBookList md5 up now c f2 response)\<rparr>))))"









section \<open>Verified properties\<close>

subsection \<open>The cache: shutdown\<close>

text \<open>
  C10. \<open>Shutdown\<close> is not idempotent. On a cache whose cleanup channel is open, the
  first call returns, with the context cancelled (which stops the sweeper), the cleanup
  channel closed and, when the external tier is in use, its connection closed; a second
  call on the cache it leaves panics with "close of closed channel".
\<close>

theorem Shutdown_once_then_panics:
  "\<not> cleanupClosed c \<Longrightarrow>
   (\<exists>c'. BookCache_Shutdown c = Returns c' \<and> ctxDone c' \<and> \<not> sweeper c' \<and> cleanupClosed c' \<and>
          (\<forall>r. external c = Some r \<longrightarrow> (\<exists>r'. redis c' = Some r' \<and> clientClosed r')) \<and>
          BookCache_Shutdown c' = Panics ''close of closed channel'')"
  by (auto simp: BookCache_Shutdown_def Let_def external_def RedisCache_Close_def
           split: option.splits)

theorem Shutdown_once_then_panics_witness:
  "\<exists>c'. BookCache_Shutdown (NewBookCache True 300 (Some \<lparr>store = Map.empty, clientClosed = False\<rparr>))
           = Returns c' \<and>
        (\<exists>r'. redis c' = Some r' \<and> clientClosed r') \<and>
        BookCache_Shutdown c' = Panics ''close of closed channel''"
  using Shutdown_once_then_panics
    [of "NewBookCache True 300 (Some \<lparr>store = Map.empty, clientClosed = False\<rparr>)"]
  by (auto simp: NewBookCache_def external_def RedisCache_Ping_def Let_def)


subsection \<open>Key lengths\<close>

lemma length_hex_bytes: "length (hex_bytes bs) = 2 * length bs"
  by (induction bs) (simp_all add: hex_bytes_def hex_byte_def)

lemma length_bytes16: "length (bytes16 w) = 16"
  by (simp add: bytes16_def)

lemma length_Sprintf_x: "length (Sprintf_x h) = 32"
  by (simp add: Sprintf_x_def length_hex_bytes length_bytes16)

lemma length_uuid_String: "length (uuid_String u) = 36"
  by (simp add: uuid_String_def Let_def length_hex_bytes length_bytes16)

lemma length_GenerateBookListKey: "length (GenerateBookListKey md5 f) = 38"
  by (simp add: GenerateBookListKey_def Let_def length_Sprintf_x)

lemma listKey_neq_uuid: "GenerateBookListKey md5 f \<noteq> uuid_String u"
proof
  assume "GenerateBookListKey md5 f = uuid_String u"
  then have "length (GenerateBookListKey md5 f) = length (uuid_String u)" by simp
  then show False by (simp add: length_GenerateBookListKey length_uuid_String)
qed

subsection \<open>The cache: invalidation\<close>

text \<open>
  C2. \<open>InvalidateBook\<close> removes from the in-memory map the keys of 32 characters, but
  a list key is \<open>books:\<close> followed by 32 hex digits, 38 characters. So in a cache without
  external tier (\<open>NewBookCache\<close> with a nil \<open>redisCache\<close>), a list stored at time 0 with
  a TTL of 300 is still found at time 10 after \<open>InvalidateBook\<close> has been called twice:
  invalidation does not leave the list keys in the miss state.
\<close>

theorem InvalidateBook_keeps_local_list:
  "fst (BookCache_GetBookList md5 up 10
         (BookCache_InvalidateBook u1 u2 10
           (BookCache_InvalidateBook u3 u4 10
             (BookCache_SetBookList md5 up 0 (NewBookCache up 300 None) f resp) bid) bid) f)
   = Some resp"
  by (simp add: BookCache_GetBookList_def BookCache_InvalidateBook_def BookCache_SetBookList_def
        NewBookCache_def external_def Let_def getLocal_def setLocal_def hitMemory_def
        length_GenerateBookListKey listKey_neq_uuid)


subsection \<open>The cache: writing and reading back a book\<close>





subsection \<open>The worker pool: submitting a job\<close>


lemma SubmitJob_running:
  assumes "\<not> poolCtxDone bp" "\<not> queueClosed bp"
  shows "SubmitJob k bp job =
           (if length (jobQueue bp) < queueCap bp
            then Returns (None, bp\<lparr>jobQueue := jobQueue bp @ [job]\<rparr>)
            else Returns (Some (Err ''job queue is full''), bp))"
  using assms by (simp add: SubmitJob_def SubmitJob_cases_def Let_def)

text \<open>
  C5. In a pool of 10 workers and a queue of 100 that has been started, once \<open>Stop\<close>
  has cancelled the context and closed the queue, the \<open>select\<close> of \<open>SubmitJob\<close> has
  two cases that can proceed, and the first, the send on the closed queue, panics. And once
  \<open>Shutdown\<close> has cancelled the context (it never closes the queue), the send can proceed
  as well as the cancellation case: the job is enqueued and \<open>SubmitJob\<close> returns nil.
\<close>

theorem SubmitJob_after_Stop_panics:
  "SubmitJob 0 (the (run [StopStep, StopStep] (Start (NewBookProcessor 10 100)))) job
     = Panics ''send on closed channel'' \<and>
   SubmitJob 0 (the (run [ShutdownCancel] (Start (NewBookProcessor 10 100)))) job
     = Returns (None, (the (run [ShutdownCancel] (Start (NewBookProcessor 10 100))))
                        \<lparr>jobQueue := [job]\<rparr>)"
  by (simp add: SubmitJob_def SubmitJob_cases_def NewBookProcessor_def Start_def Let_def)

subsection \<open>The worker pool: stopping\<close>

lemma step_keeps_jobs:
  "step e bp = Some bp' \<Longrightarrow> started bp' @ jobQueue bp' = started bp @ jobQueue bp"
  by (cases e)
     (auto simp: set_wstate_def split: option.splits wstate.splits list.splits if_splits)

lemma run_keeps_jobs:
  "run sched bp = Some bp' \<Longrightarrow> started bp' @ jobQueue bp' = started bp @ jobQueue bp"
proof (induction sched arbitrary: bp)
  case Nil
  then show ?case by simp
next
  case (Cons e es)
  then obtain bp1 where s: "step e bp = Some bp1" and r: "run es bp1 = Some bp'"
    by (auto split: if_splits option.splits)
  from Cons.IH [OF r] step_keeps_jobs [OF s] show ?case by simp
qed

lemma all_exited_wstate:
  "all_exited bp \<Longrightarrow> wstate_at bp i = Some w \<Longrightarrow> w = Exited"
  by (auto simp: all_exited_def wstate_at_def list_all_length split: if_splits)

lemma worker_step_exited:
  "all_exited bp \<Longrightarrow>
   step (WorkerRecv i) bp = None \<and> step (WorkerFinish i) bp = None \<and>
   step (WorkerSend i) bp = None \<and> step (WorkerDone i) bp = None"
  by (cases "wstate_at bp i") (auto dest: all_exited_wstate)

lemma worker_step_fields:
  assumes "step e bp = Some bp'"
    and "e = WorkerRecv i \<or> e = WorkerFinish i \<or> e = WorkerSend i \<or> e = WorkerDone i"
  shows "stopPC bp' = stopPC bp \<and> poolCtxDone bp' = poolCtxDone bp \<and>
         queueClosed bp' = queueClosed bp"
  using assms
  by (auto simp: set_wstate_def split: option.splits wstate.splits list.splits if_splits)

lemma step_stop_inv:
  assumes "step e bp = Some bp'"
    and "(1 \<le> stopPC bp \<longrightarrow> poolCtxDone bp) \<and> (2 \<le> stopPC bp \<longrightarrow> queueClosed bp) \<and>
         (3 \<le> stopPC bp \<longrightarrow> all_exited bp)"
  shows "(1 \<le> stopPC bp' \<longrightarrow> poolCtxDone bp') \<and> (2 \<le> stopPC bp' \<longrightarrow> queueClosed bp') \<and>
         (3 \<le> stopPC bp' \<longrightarrow> all_exited bp')"
proof -
  have worker: ?thesis
    if w: "e = WorkerRecv i \<or> e = WorkerFinish i \<or> e = WorkerSend i \<or> e = WorkerDone i" for i
  proof -
    have "\<not> all_exited bp"
      using worker_step_exited [of bp i] assms(1) w by auto
    with assms(2) have "\<not> 3 \<le> stopPC bp" by blast
    with worker_step_fields [OF assms(1) w] assms(2) show ?thesis by simp
  qed
  show ?thesis
  proof (cases e)
    case CollectorRecv
    with assms show ?thesis
      by (auto simp: all_exited_def split: list.splits if_splits)
  next
    case CollectorDone
    with assms show ?thesis
      by (auto simp: all_exited_def split: list.splits if_splits)
  next
    case StopStep
    with assms show ?thesis
      by (auto simp: all_exited_def split: if_splits)
  next
    case ShutdownCancel
    with assms show ?thesis
      by (auto simp: all_exited_def split: if_splits)
  qed (use worker in blast)+
qed

lemma run_stop_inv:
  assumes "run sched bp = Some bp'"
    and "(1 \<le> stopPC bp \<longrightarrow> poolCtxDone bp) \<and> (2 \<le> stopPC bp \<longrightarrow> queueClosed bp) \<and>
         (3 \<le> stopPC bp \<longrightarrow> all_exited bp)"
  shows "(1 \<le> stopPC bp' \<longrightarrow> poolCtxDone bp') \<and> (2 \<le> stopPC bp' \<longrightarrow> queueClosed bp') \<and>
         (3 \<le> stopPC bp' \<longrightarrow> all_exited bp')"
  using assms
proof (induction sched arbitrary: bp)
  case Nil
  then show ?case by simp
next
  case (Cons e es)
  from Cons.prems(1) obtain bp1 where s: "step e bp = Some bp1" and r: "run es bp1 = Some bp'"
    by (auto split: if_splits option.splits)
  from Cons.IH [OF r step_stop_inv [OF s Cons.prems(2)]] show ?case .
qed

text \<open>
  C4, as stated, fails. One worker, one job accepted by \<open>SubmitJob\<close>: \<open>Stop\<close>
  cancels the context and closes the queue, the worker's \<open>select\<close> takes the
  cancellation case and the worker returns, the collector returns, \<open>wg.Wait\<close> and
  \<open>Stop\<close> return. The job is still in the queue and no worker has started it.
\<close>

theorem Stop_leaves_job:
  "(case SubmitJob 0 (Start (NewBookProcessor 1 100))
           \<lparr>job_ID = ''j1'', job_Type = 2, job_BookData = None\<rparr> of
      Returns (None, bp) \<Rightarrow>
        map_option (\<lambda>bp. (stopPC bp, all_exited bp, started bp, jobQueue bp))
          (run [StopStep, StopStep, WorkerDone 0, CollectorDone, StopStep, StopStep] bp)
        = Some (4, True, [], [\<lparr>job_ID = ''j1'', job_Type = 2, job_BookData = None\<rparr>])
    | _ \<Rightarrow> False)"
  by (simp add: SubmitJob_def SubmitJob_cases_def NewBookProcessor_def Start_def wstate_at_def
        set_wstate_def all_exited_def Let_def)

text \<open>
  C4, amended. Under every schedule of the goroutines, the jobs the workers start are
  taken from the front of the queue, in order: the jobs started followed by the jobs still
  queued are always the jobs started and queued before. A worker inside \<open>processJob\<close>
  cannot take the cancellation case: it finishes the job. When \<open>Stop\<close> has returned,
  the context is cancelled, the queue is closed and every worker and the collector have
  returned; the jobs still queued then were never started.
\<close>

theorem Stop_takes_a_prefix:
  "(run sched bp = Some bp' \<longrightarrow>
      started bp' @ jobQueue bp' = started bp @ jobQueue bp \<and>
      (stopPC bp = 0 \<and> stopPC bp' = 4 \<longrightarrow> poolCtxDone bp' \<and> queueClosed bp' \<and> all_exited bp')) \<and>
   (wstate_at bp i = Some (Processing job) \<longrightarrow>
      step (WorkerDone i) bp = None \<and>
      step (WorkerFinish i) bp = Some (set_wstate bp i (Sending (processJob job))))"
proof -
  have "poolCtxDone bp' \<and> queueClosed bp' \<and> all_exited bp'"
    if "run sched bp = Some bp'" "stopPC bp = 0" "stopPC bp' = 4"
    using run_stop_inv [OF that(1)] that(2,3) by simp
  then show ?thesis using run_keeps_jobs by auto
qed

theorem Stop_takes_a_prefix_witness:
  "(\<exists>bp'. run [StopStep, StopStep, WorkerFinish 0, WorkerDone 0, CollectorDone, StopStep, StopStep]
             ((Start (NewBookProcessor 1 100))
                \<lparr>jobQueue := [\<lparr>job_ID = ''j2'', job_Type = 2, job_BookData = None\<rparr>],
                  started := [\<lparr>job_ID = ''j1'', job_Type = 2, job_BookData = None\<rparr>],
                  wstates := [Processing \<lparr>job_ID = ''j1'', job_Type = 2, job_BookData = None\<rparr>]\<rparr>)
           = Some bp' \<and>
         stopPC bp' = 4 \<and> all_exited bp' \<and>
         started bp' @ jobQueue bp' =
           [\<lparr>job_ID = ''j1'', job_Type = 2, job_BookData = None\<rparr>,
            \<lparr>job_ID = ''j2'', job_Type = 2, job_BookData = None\<rparr>]) \<and>
   step (WorkerDone 0)
     ((Start (NewBookProcessor 1 100))
        \<lparr>jobQueue := [\<lparr>job_ID = ''j2'', job_Type = 2, job_BookData = None\<rparr>],
          started := [\<lparr>job_ID = ''j1'', job_Type = 2, job_BookData = None\<rparr>],
          wstates := [Processing \<lparr>job_ID = ''j1'', job_Type = 2, job_BookData = None\<rparr>]\<rparr>) = None"
  using Stop_takes_a_prefix
    [of "[StopStep, StopStep, WorkerFinish 0, WorkerDone 0, CollectorDone, StopStep, StopStep]"
        "(Start (NewBookProcessor 1 100))
           \<lparr>jobQueue := [\<lparr>job_ID = ''j2'', job_Type = 2, job_BookData = None\<rparr>],
             started := [\<lparr>job_ID = ''j1'', job_Type = 2, job_BookData = None\<rparr>],
             wstates := [Processing \<lparr>job_ID = ''j1'', job_Type = 2, job_BookData = None\<rparr>]\<rparr>"
        _ 0 "\<lparr>job_ID = ''j1'', job_Type = 2, job_BookData = None\<rparr>"]
  by (simp add: NewBookProcessor_def Start_def wstate_at_def set_wstate_def all_exited_def)


subsection \<open>The service: listing books\<close>

text \<open>
  C9, as stated, fails at its lower bound: a filter with limit 1 is within the range of
  the code, which queries with limit 1 and answers with limit 1, a value outside (1,100].
\<close>

theorem GetAllBooks_limit_one:
  "fst (GetAllBooks (\<lambda>x. 0) True 0 (\<lambda>f. Inr ([], 0))
         \<lparr>bookRepo = [], cache = None, processor = None\<rparr>
         \<lparr>filter_Author = [], filter_Genre = [], filter_Language = [], filter_Available = None,
          filter_Limit = 1, filter_Offset = 0\<rparr>)
   = Inr \<lparr>Books = [], Total = 0, resp_Limit = 1, resp_Offset = 0\<rparr>"
  by (simp add: GetAllBooks_def repo_GetAll_def Let_def)

text \<open>
  C9, amended. On a cache miss, \<open>GetAllBooks\<close> queries the repository with the filter
  whose limit is the given one when that is in [1,100] and 50 otherwise, and whose offset
  is the given one when that is not negative and 0 otherwise, so with a limit in [1,100]
  and an offset of at least 0. When the repository fails, the error is returned, wrapped.
  Otherwise the response carries the repository's page and total count with exactly this
  limit and offset; it is returned and, when there is a cache, written into its local
  tier under the list key of the effective filter, with expiry \<open>now + ttl\<close>.
\<close>

theorem GetAllBooks_miss_pagination:
  assumes miss: "case cache s of
                   None \<Rightarrow> True
                 | Some c \<Rightarrow> fst (BookCache_GetBookList md5 up now c f) = None"
  defines "lim \<equiv> (if 1 \<le> filter_Limit f \<and> filter_Limit f \<le> 100 then filter_Limit f else 50)"
    and "off \<equiv> max 0 (filter_Offset f)"
  shows "1 \<le> lim \<and> lim \<le> 100 \<and> 0 \<le> off \<and>
         (case sql (f\<lparr>filter_Limit := lim, filter_Offset := off\<rparr>) of
            Inl err \<Rightarrow>
              fst (GetAllBooks md5 up now sql s f) = Inl (Wrap ''failed to get books'' err)
          | Inr (books, n) \<Rightarrow>
              fst (GetAllBooks md5 up now sql s f)
                = Inr \<lparr>Books = books, Total = n, resp_Limit = lim, resp_Offset = off\<rparr> \<and>
              (case cache (snd (GetAllBooks md5 up now sql s f)) of
                 None \<Rightarrow> cache s = None
               | Some c \<Rightarrow>
                   inMemory c (GenerateBookListKey md5 (f\<lparr>filter_Limit := lim, filter_Offset := off\<rparr>))
                     = Some \<lparr>Data = ListData \<lparr>Books = books, Total = n, resp_Limit = lim,
                                               resp_Offset = off\<rparr>,
                             ExpiresAt = now + ttl c\<rparr>))"
proof (cases "cache s")
  case None
  then show ?thesis
    by (cases "filter_Limit f \<le> 0 \<or> 100 < filter_Limit f"; cases "filter_Offset f < 0")
       (simp_all add: GetAllBooks_def repo_GetAll_def Let_def lim_def off_def max_def
          split: sum.splits prod.splits)
next
  case (Some c)
  with miss obtain c1 where g: "BookCache_GetBookList md5 up now c f = (None, c1)"
    by (cases "BookCache_GetBookList md5 up now c f") auto
  have t: "ttl c1 = ttl c"
    using g
    by (auto simp: BookCache_GetBookList_def getLocal_def Let_def hitRedis_def hitMemory_def
          miss_def split: option.splits sum.splits if_splits payload.splits)
  have s: "ttl (BookCache_SetBookList md5 up now c1 f' r) = ttl c1 \<and>
           inMemory (BookCache_SetBookList md5 up now c1 f' r) (GenerateBookListKey md5 f')
             = Some \<lparr>Data = ListData r, ExpiresAt = now + ttl c1\<rparr>" for f' r
    by (simp add: BookCache_SetBookList_def setLocal_def Let_def split: option.splits)
  show ?thesis
    using Some g
    by (cases "filter_Limit f \<le> 0 \<or> 100 < filter_Limit f"; cases "filter_Offset f < 0")
       (simp_all add: GetAllBooks_def repo_GetAll_def Let_def lim_def off_def max_def s
          split: sum.splits prod.splits)
qed

theorem GetAllBooks_miss_pagination_witness:
  "fst (GetAllBooks (\<lambda>x. 0) True 0 (\<lambda>f. Inr ([], 7))
         \<lparr>bookRepo = [], cache = Some (NewBookCache True 300 None), processor = None\<rparr>
         \<lparr>filter_Author = [], filter_Genre = [], filter_Language = [], filter_Available = None,
          filter_Limit = 500, filter_Offset = - 3\<rparr>)
   = Inr \<lparr>Books = [], Total = 7, resp_Limit = 50, resp_Offset = 0\<rparr>"
  using GetAllBooks_miss_pagination
    [where s = "\<lparr>bookRepo = [], cache = Some (NewBookCache True 300 None), processor = None\<rparr>"
       and ?md5.0 = "\<lambda>x. 0" and up = True and now = 0
       and f = "\<lparr>filter_Author = [], filter_Genre = [], filter_Language = [],
                 filter_Available = None, filter_Limit = 500, filter_Offset = - 3\<rparr>"
       and sql = "\<lambda>f. Inr ([], 7)"]
  by (simp add: BookCache_GetBookList_def NewBookCache_def external_def getLocal_def Let_def)

subsection \<open>The service: creating a book\<close>

text \<open>
  C1. The first \<open>CreateBook\<close>, with the identifier \<open>9780547928210\<close>, succeeds. The
  second, with the same identifier written \<open>978-0-547-92821-0\<close>, passes the uniqueness
  check, because \<open>ExistsByISBN\<close> is asked for the identifier as the request spells it,
  and fails only at the insert, on the unique index of the table: the error is
  "failed to create book" around the driver's error, not "already exists".
\<close>

theorem CreateBook_hyphenated_duplicate:
  "(case CreateBook
           \<lparr>arrival = [], checkUp = True, checkTimeout = False, createUp = True, newID = 1,
            dbNow = 0, redisUp = True, cacheNow = 0, jobID = ''job-1'', pick = 0\<rparr>
           \<lparr>bookRepo = [], cache = None, processor = None\<rparr>
           \<lparr>req_Title = ''The Hobbit'', req_Author = ''Tolkien'', req_ISBN = ''9780547928210'',
            req_Publisher = [], req_Genre = [], req_PublishedAt = 0, req_Pages = 366,
            req_Language = []\<rparr> of
      Returns (Inr book, s1) \<Rightarrow>
        ISBN book = ''9780547928210'' \<and>
        CreateBook
          \<lparr>arrival = [], checkUp = True, checkTimeout = False, createUp = True, newID = 2,
           dbNow = 1, redisUp = True, cacheNow = 1, jobID = ''job-2'', pick = 0\<rparr>
          s1
          \<lparr>req_Title = ''The Hobbit'', req_Author = ''Tolkien'', req_ISBN = ''978-0-547-92821-0'',
           req_Publisher = [], req_Genre = [], req_PublishedAt = 0, req_Pages = 366,
           req_Language = []\<rparr>
        = Returns (Inl (Wrap ''failed to create book''
                         (Wrap ''failed to create book'' (DriverErr UniqueViolation))), s1)
    | _ \<Rightarrow> False)"
  by (simp add: CreateBook_def deliveries_def runValidator_def validateTitle_def
        validateAuthor_def validateISBN_def isValidISBN_def normalizeISBN_def TrimSpace_def
        isSpace_def ExistsByISBN_def repo_Create_def normalizeBookData_def Let_def)

text \<open>
  C3. With a cache without external tier, a successful \<open>CreateBook\<close> leaves the cache
  empty: \<open>Clear\<close>, called right after \<open>SetBook\<close> to drop the cached lists, drops every
  entry of the in-memory map, the new book with them, and a following \<open>GetBook\<close> of the
  new book's id finds nothing.
\<close>

theorem CreateBook_clears_new_book:
  "(case CreateBook
           \<lparr>arrival = [], checkUp = True, checkTimeout = False, createUp = True, newID = 1,
            dbNow = 0, redisUp = True, cacheNow = 0, jobID = ''job-1'', pick = 0\<rparr>
           \<lparr>bookRepo = [], cache = Some (NewBookCache True 300 None), processor = None\<rparr>
           \<lparr>req_Title = ''The Hobbit'', req_Author = ''Tolkien'', req_ISBN = ''9780547928210'',
            req_Publisher = [], req_Genre = [], req_PublishedAt = 0, req_Pages = 366,
            req_Language = []\<rparr> of
      Returns (Inr book, s1) \<Rightarrow>
        (case cache s1 of
           Some c \<Rightarrow> ID book = 1 \<and> inMemory c = Map.empty \<and>
                     fst (BookCache_GetBook True 1 c (ID book)) = None
         | None \<Rightarrow> False)
    | _ \<Rightarrow> False)"
  by (simp add: CreateBook_def deliveries_def runValidator_def validateTitle_def
        validateAuthor_def validateISBN_def isValidISBN_def normalizeISBN_def TrimSpace_def
        isSpace_def ExistsByISBN_def repo_Create_def normalizeBookData_def Let_def
        BookCache_Clear_def BookCache_SetBook_def setLocal_def NewBookCache_def external_def
        BookCache_GetBook_def getLocal_def)


lemma glob_match_star: "glob_match ''*'' s"
  by (induction s) simp_all

text \<open>
  With an external tier the new book is readable from it only until the goroutine started
  by \<open>Clear\<close> has run: it deletes the keys matching \<open>book:*\<close> as well.
\<close>

lemma CreateBook_flush_drops_new_book:
  "(case CreateBook
           \<lparr>arrival = [], checkUp = True, checkTimeout = False, createUp = True, newID = 1,
            dbNow = 0, redisUp = True, cacheNow = 0, jobID = ''job-1'', pick = 0\<rparr>
           \<lparr>bookRepo = [],
            cache = Some (NewBookCache True 300 (Some \<lparr>store = Map.empty, clientClosed = False\<rparr>)),
            processor = None\<rparr>
           \<lparr>req_Title = ''The Hobbit'', req_Author = ''Tolkien'', req_ISBN = ''9780547928210'',
            req_Publisher = [], req_Genre = [], req_PublishedAt = 0, req_Pages = 366,
            req_Language = []\<rparr> of
      Returns (Inr book, s1) \<Rightarrow>
        (case cache s1 of
           Some c \<Rightarrow> fst (BookCache_GetBook True 1 c (ID book)) = Some book \<and>
                     fst (BookCache_GetBook True 1 (asyncFlush True True 1 c) (ID book)) = None
         | None \<Rightarrow> False)
    | _ \<Rightarrow> False)"
  by (simp add: CreateBook_def deliveries_def runValidator_def validateTitle_def
        validateAuthor_def validateISBN_def isValidISBN_def normalizeISBN_def TrimSpace_def
        isSpace_def ExistsByISBN_def repo_Create_def normalizeBookData_def Let_def
        BookCache_Clear_def BookCache_SetBook_def setLocal_def NewBookCache_def external_def
        BookCache_GetBook_def getLocal_def RedisCache_Ping_def RedisCache_SetBook_def
        RedisCache_GetBook_def redis_Set_def redis_Get_def redis_live_def asyncFlush_def
        RedisCache_DeleteBookListCache_def glob_match_star)

subsection \<open>Printing is injective\<close>

lemma digit_inj: "n < 10 \<Longrightarrow> m < 10 \<Longrightarrow> ''0123456789'' ! n = ''0123456789'' ! m \<Longrightarrow> n = m"
  by (subst (asm) nth_eq_iff_index_eq) simp_all

lemma digit_not_minus: "n < 10 \<Longrightarrow> ''0123456789'' ! n \<noteq> CHR ''-''"
proof -
  assume "n < 10"
  then have "''0123456789'' ! n \<in> set ''0123456789''" by (intro nth_mem) simp
  then show ?thesis by auto
qed

lemma digits10_small: "n < 10 \<Longrightarrow> digits10 n = [''0123456789'' ! n]"
  by (simp add: digits10.simps)

lemma digits10_big: "\<not> n < 10 \<Longrightarrow> digits10 n = digits10 (n div 10) @ [''0123456789'' ! (n mod 10)]"
  by (subst digits10.simps) simp

lemma digits10_nonempty: "digits10 n \<noteq> []"
  by (cases "n < 10") (simp_all add: digits10_small digits10_big)

lemma digits10_hd: "hd (digits10 n) \<noteq> CHR ''-''"
proof (induction n rule: digits10.induct)
  case (1 n)
  show ?case
  proof (cases "n < 10")
    case True
    then show ?thesis by (simp add: digits10_small digit_not_minus)
  next
    case False
    with 1 show ?thesis by (simp add: digits10_big digits10_nonempty)
  qed
qed

lemma digits10_inj: "digits10 n = digits10 m \<Longrightarrow> n = m"
proof (induction n arbitrary: m rule: digits10.induct)
  case (1 n)
  show ?case
  proof (cases "n < 10")
    case n: True
    show ?thesis
    proof (cases "m < 10")
      case True
      with n 1(2) show ?thesis by (simp add: digits10_small digit_inj)
    next
      case False
      with n 1(2) digits10_nonempty [of "m div 10"] show ?thesis
        by (auto simp: digits10_small digits10_big)
    qed
  next
    case n: False
    show ?thesis
    proof (cases "m < 10")
      case True
      with n 1(2) digits10_nonempty [of "n div 10"] show ?thesis
        by (auto simp: digits10_small digits10_big)
    next
      case False
      with n 1(2) have "digits10 (n div 10) = digits10 (m div 10)"
        and "''0123456789'' ! (n mod 10) = ''0123456789'' ! (m mod 10)"
        by (simp_all add: digits10_big)
      with 1(1) [OF n] have "n div 10 = m div 10" "n mod 10 = m mod 10"
        by (auto intro: digit_inj)
      then show ?thesis by (metis div_mult_mod_eq)
    qed
  qed
qed

lemma Sprintf_d_inj: "Sprintf_d i = Sprintf_d j \<Longrightarrow> i = j"
proof -
  assume e: "Sprintf_d i = Sprintf_d j"
  have neq: "CHR ''-'' # xs \<noteq> digits10 n" for xs n
    using digits10_hd [of n] by (cases "digits10 n") (auto simp: digits10_nonempty)
  show ?thesis
  proof (cases "i < 0"; cases "j < 0")
    assume "i < 0" "j < 0"
    with e have "nat (- i) = nat (- j)" by (simp add: Sprintf_d_def digits10_inj)
    with \<open>i < 0\<close> \<open>j < 0\<close> show ?thesis by simp
  next
    assume "i < 0" "\<not> j < 0"
    with e neq show ?thesis by (simp add: Sprintf_d_def)
  next
    assume "\<not> i < 0" "j < 0"
    with e neq [of "digits10 (nat (- j))" "nat i"] show ?thesis by (simp add: Sprintf_d_def)
  next
    assume "\<not> i < 0" "\<not> j < 0"
    with e have "nat i = nat j" by (simp add: Sprintf_d_def digits10_inj)
    with \<open>\<not> i < 0\<close> \<open>\<not> j < 0\<close> show ?thesis by simp
  qed
qed

lemma hexdigit_inj: "n < 16 \<Longrightarrow> m < 16 \<Longrightarrow> hexdigit n = hexdigit m \<Longrightarrow> n = m"
  unfolding hexdigit_def by (subst (asm) nth_eq_iff_index_eq) simp_all

lemma hex_byte_inj: "a < 256 \<Longrightarrow> b < 256 \<Longrightarrow> hex_byte a = hex_byte b \<Longrightarrow> a = b"
proof -
  assume a: "a < 256" and b: "b < 256" and e: "hex_byte a = hex_byte b"
  from a b have "a div 16 < 16" "b div 16 < 16" by simp_all
  with e have "a div 16 = b div 16" "a mod 16 = b mod 16"
    by (auto simp: hex_byte_def intro: hexdigit_inj)
  then show ?thesis by (metis div_mult_mod_eq)
qed

lemma hex_bytes_inj:
  "length xs = length ys \<Longrightarrow> \<forall>x\<in>set xs. x < 256 \<Longrightarrow> \<forall>y\<in>set ys. y < 256 \<Longrightarrow>
   hex_bytes xs = hex_bytes ys \<Longrightarrow> xs = ys"
proof (induction xs ys rule: list_induct2)
  case Nil
  then show ?case by simp
next
  case (Cons x xs y ys)
  from Cons.prems(3) have "hex_byte x = hex_byte y \<and> hex_bytes xs = hex_bytes ys"
    by (simp add: hex_bytes_def hex_byte_def)
  with Cons show ?case by (auto dest: hex_byte_inj)
qed

lemma base_digits_eq:
  fixes n m :: nat
  shows "(\<forall>i<k. (n div b ^ i) mod b = (m div b ^ i) mod b) \<Longrightarrow> n mod b ^ k = m mod b ^ k"
proof (induction k)
  case 0
  then show ?case by simp
next
  case (Suc k)
  have "n mod (b ^ k * b) = b ^ k * (n div b ^ k mod b) + n mod b ^ k"
       "m mod (b ^ k * b) = b ^ k * (m div b ^ k mod b) + m mod b ^ k"
    by (rule mod_mult2_eq)+
  with Suc show ?case by (simp add: mult.commute)
qed

lemma bytes16_inj: "bytes16 u = bytes16 v \<Longrightarrow> u = v"
proof -
  assume e: "bytes16 u = bytes16 v"
  have d: "(unat u div 256 ^ i) mod 256 = (unat v div 256 ^ i) mod 256" if "i < 16" for i
  proof -
    from that have "15 - i \<in> set [0..<16]" by simp
    with e have "(unat u div 256 ^ (15 - (15 - i))) mod 256 = (unat v div 256 ^ (15 - (15 - i))) mod 256"
      unfolding bytes16_def map_eq_conv by blast
    with that show ?thesis by simp
  qed
  then have "unat u mod 256 ^ 16 = unat v mod 256 ^ 16"
    by (intro base_digits_eq) blast
  moreover have "unat u < 256 ^ 16" "unat v < 256 ^ 16"
    using unsigned_less [of u, where ?'a = nat] unsigned_less [of v, where ?'a = nat] by simp_all
  ultimately have "unat u = unat v" by simp
  then show ?thesis by (rule unsigned_word_eqI)
qed

lemma Sprintf_x_inj: "Sprintf_x u = Sprintf_x v \<Longrightarrow> u = v"
proof -
  assume "Sprintf_x u = Sprintf_x v"
  moreover have "\<forall>x\<in>set (bytes16 w). x < 256" for w
    by (auto simp: bytes16_def)
  ultimately have "bytes16 u = bytes16 v"
    unfolding Sprintf_x_def by (intro hex_bytes_inj) (simp_all add: length_bytes16)
  then show ?thesis by (rule bytes16_inj)
qed

subsection \<open>The cache keys\<close>

text \<open>
  C6, as stated, fails for the local tier: \<open>SetBook\<close> stores a book in the in-memory
  map under the bare \<open>id.String()\<close>; nothing is stored under \<open>book:\<close> followed by the id.
\<close>

theorem local_key_has_no_prefix:
  "inMemory (BookCache_SetBook True 0 (NewBookCache True 300 None) (zeroBook\<lparr>ID := 1\<rparr>))
     (''book:'' @ uuid_String 1) = None \<and>
   inMemory (BookCache_SetBook True 0 (NewBookCache True 300 None) (zeroBook\<lparr>ID := 1\<rparr>))
     (uuid_String 1) = Some \<lparr>Data = BookData (zeroBook\<lparr>ID := 1\<rparr>), ExpiresAt = 300\<rparr>"
  by (simp add: BookCache_SetBook_def NewBookCache_def external_def setLocal_def Let_def)

lemma list_key_format:
  "GenerateBookListKey md5 f =
     ''books:'' @ Sprintf_x (md5 (''author:'' @ filter_Author f @ ''|genre:'' @ filter_Genre f @
        ''|language:'' @ filter_Language f @ ''|available:'' @
        (case filter_Available f of None \<Rightarrow> [] | Some True \<Rightarrow> ''true'' | Some False \<Rightarrow> ''false'') @
        ''|limit:'' @ Sprintf_d (filter_Limit f) @ ''|offset:'' @ Sprintf_d (filter_Offset f)))"
  by (simp add: GenerateBookListKey_def filterStr_def Let_def split: option.splits bool.splits)

lemma external_book_key:
  "\<not> clientClosed r \<Longrightarrow>
     (\<exists>ex. snd (RedisCache_SetBook True now r b t)
             = r\<lparr>store := (store r)(''book:'' @ uuid_String (ID b) \<mapsto> (BookData b, ex))\<rparr>) \<and>
     snd (RedisCache_DeleteBook True r (uuid_String u))
       = r\<lparr>store := (store r)(''book:'' @ uuid_String u := None)\<rparr>"
  by (auto simp: RedisCache_SetBook_def redis_Set_def RedisCache_DeleteBook_def redis_Del_def Let_def)

lemma local_book_key:
  "inMemory (BookCache_SetBook up now c b)
     = (inMemory c)(uuid_String (ID b) \<mapsto> \<lparr>Data = BookData b, ExpiresAt = now + ttl c\<rparr>)"
  by (simp add: BookCache_SetBook_def setLocal_def Let_def split: option.splits)

lemma offset_changes_filterStr:
  "off \<noteq> filter_Offset f \<Longrightarrow> filterStr (f\<lparr>filter_Offset := off\<rparr>) \<noteq> filterStr f"
  by (auto simp: filterStr_def Let_def dest: Sprintf_d_inj)

lemma list_key_eq_iff:
  "(GenerateBookListKey md5 f1 = GenerateBookListKey md5 f2)
     = (md5 (filterStr f1) = md5 (filterStr f2))"
  by (auto simp: GenerateBookListKey_def Let_def dest: Sprintf_x_inj)

text \<open>
  C6, amended. The list key is \<open>books:\<close> followed by the hex digits of the MD5 digest of
  \<open>author:%s|genre:%s|language:%s|available:%s|limit:%d|offset:%d\<close>, the availability
  being empty when unset and \<open>true\<close> or \<open>false\<close> otherwise. The key of a single record is
  \<open>book:\<close> followed by the id in the external tier (\<open>SetBook\<close>, \<open>DeleteBook\<close>) and
  the bare id in the local tier. Two filters with the same field values have the same key.
  Two filters that differ only in the offset are hashed from different strings, and their
  keys differ exactly when MD5 gives the two strings different digests.
\<close>

theorem cache_keys:
  "GenerateBookListKey md5 f =
     ''books:'' @ Sprintf_x (md5 (''author:'' @ filter_Author f @ ''|genre:'' @ filter_Genre f @
        ''|language:'' @ filter_Language f @ ''|available:'' @
        (case filter_Available f of None \<Rightarrow> [] | Some True \<Rightarrow> ''true'' | Some False \<Rightarrow> ''false'') @
        ''|limit:'' @ Sprintf_d (filter_Limit f) @ ''|offset:'' @ Sprintf_d (filter_Offset f))) \<and>
   (\<not> clientClosed r \<longrightarrow>
     (\<exists>ex. snd (RedisCache_SetBook True now r b t)
             = r\<lparr>store := (store r)(''book:'' @ uuid_String (ID b) \<mapsto> (BookData b, ex))\<rparr>) \<and>
     snd (RedisCache_DeleteBook True r (uuid_String u))
       = r\<lparr>store := (store r)(''book:'' @ uuid_String u := None)\<rparr>) \<and>
   inMemory (BookCache_SetBook up now c b)
     = (inMemory c)(uuid_String (ID b) \<mapsto> \<lparr>Data = BookData b, ExpiresAt = now + ttl c\<rparr>) \<and>
   (filter_Author f = filter_Author g \<and> filter_Genre f = filter_Genre g \<and>
    filter_Language f = filter_Language g \<and> filter_Available f = filter_Available g \<and>
    filter_Limit f = filter_Limit g \<and> filter_Offset f = filter_Offset g \<longrightarrow>
      GenerateBookListKey md5 f = GenerateBookListKey md5 g) \<and>
   (off \<noteq> filter_Offset f \<longrightarrow>
      filterStr (f\<lparr>filter_Offset := off\<rparr>) \<noteq> filterStr f \<and>
      (GenerateBookListKey md5 (f\<lparr>filter_Offset := off\<rparr>) = GenerateBookListKey md5 f)
        = (md5 (filterStr (f\<lparr>filter_Offset := off\<rparr>)) = md5 (filterStr f)))"
proof (intro conjI impI)
  show "GenerateBookListKey md5 f = GenerateBookListKey md5 g"
    if "filter_Author f = filter_Author g \<and> filter_Genre f = filter_Genre g \<and>
        filter_Language f = filter_Language g \<and> filter_Available f = filter_Available g \<and>
        filter_Limit f = filter_Limit g \<and> filter_Offset f = filter_Offset g"
    using that by (simp add: GenerateBookListKey_def filterStr_def Let_def)
qed (use list_key_format external_book_key local_book_key offset_changes_filterStr
       list_key_eq_iff in blast)+

theorem cache_keys_witness:
  "GenerateBookListKey (\<lambda>s. of_nat (length s))
     \<lparr>filter_Author = ''Tolkien'', filter_Genre = [], filter_Language = [],
      filter_Available = Some True, filter_Limit = 10, filter_Offset = 10\<rparr>
   \<noteq> GenerateBookListKey (\<lambda>s. of_nat (length s))
     \<lparr>filter_Author = ''Tolkien'', filter_Genre = [], filter_Language = [],
      filter_Available = Some True, filter_Limit = 10, filter_Offset = 0\<rparr> \<and>
   snd (RedisCache_DeleteBook True \<lparr>store = Map.empty, clientClosed = False\<rparr> (uuid_String 1))
     = \<lparr>store = Map.empty, clientClosed = False\<rparr>"
  using cache_keys
    [where f = "\<lparr>filter_Author = ''Tolkien'', filter_Genre = [], filter_Language = [],
                 filter_Available = Some True, filter_Limit = 10, filter_Offset = 0\<rparr>"
       and g = "\<lparr>filter_Author = ''Tolkien'', filter_Genre = [], filter_Language = [],
                 filter_Available = Some True, filter_Limit = 10, filter_Offset = 0\<rparr>"
       and off = 10 and ?md5.0 = "\<lambda>s. of_nat (length s)"
       and r = "\<lparr>store = Map.empty, clientClosed = False\<rparr>" and u = 1 and b = zeroBook
       and now = 0 and t = 1 and up = True and c = "NewBookCache True 300 None"]
  by (auto simp: filterStr_def Sprintf_d_def digits10_small digits10_big Let_def)


subsection \<open>The service: creating books in bulk\<close>

















end
